theory Spec2Isabelle
  imports Main "HOL-Library.Sublist"
begin

section \<open>The link-redirect worker (src/index.js)\<close>

text \<open>
  The worker is one module: \<open>extractSlug\<close>, \<open>buildTargetUrl\<close>,
  \<open>getLinkFromSupabase\<close> and the \<open>fetch\<close> handler. JavaScript strings are
  modelled as \<open>string\<close>, read as the UTF-8 bytes of the text; every character test of the
  worker is on ASCII characters. The \<open>console\<close> calls only write to the log and are
  left out of the model.
\<close>

subsection \<open>String helpers of the language\<close>

text \<open>\<open>s.replace(/^\<bslash>//, '')\<close>: one leading slash is removed, if there is one.\<close>

fun strip_leading_slash :: "string \<Rightarrow> string" where
  "strip_leading_slash [] = []"
| "strip_leading_slash (c # cs) = (if c = CHR ''/'' then cs else c # cs)"

text \<open>\<open>s.split(c)[0]\<close>: the part of \<open>s\<close> before the first \<open>c\<close> (all of \<open>s\<close> without one).\<close>

definition split_head :: "char \<Rightarrow> string \<Rightarrow> string" where
  "split_head c s = takeWhile (\<lambda>x. x \<noteq> c) s"

text \<open>\<open>s.startsWith(p)\<close>.\<close>

definition startsWith :: "string \<Rightarrow> string \<Rightarrow> bool" where
  "startsWith s p = (take (length p) s = p)"

definition is_lower :: "char \<Rightarrow> bool" where
  "is_lower c = (97 \<le> (of_char c :: nat) \<and> (of_char c :: nat) \<le> 122)"

definition is_upper :: "char \<Rightarrow> bool" where
  "is_upper c = (65 \<le> (of_char c :: nat) \<and> (of_char c :: nat) \<le> 90)"

definition is_digit :: "char \<Rightarrow> bool" where
  "is_digit c = (48 \<le> (of_char c :: nat) \<and> (of_char c :: nat) \<le> 57)"

text \<open>
  \<open>s.toLowerCase()\<close> on ASCII text: the worker applies it only to a string that has
  passed the slug pattern, so only ASCII letters, digits and hyphens reach it.
\<close>

definition lower_char :: "char \<Rightarrow> char" where
  "lower_char c = (if is_upper c then char_of ((of_char c :: nat) + 32) else c)"

definition toLowerCase :: "string \<Rightarrow> string" where
  "toLowerCase s = map lower_char s"

subsection \<open>extractSlug\<close>

text \<open>
  The character class \<open>[a-z0-9-]\<close> under the flag \<open>i\<close>: without the flag \<open>u\<close> a
  character outside ASCII never matches an ASCII letter, so the class is the ASCII letters
  of both cases, the digits and the hyphen.
\<close>

definition slug_char :: "char \<Rightarrow> bool" where
  "slug_char c = (is_lower c \<or> is_upper c \<or> is_digit c \<or> c = CHR ''-'')"

text \<open>\<open>/^[a-z0-9-]{3,30}$/i.test(path)\<close>\<close>

definition slugPattern_test :: "string \<Rightarrow> bool" where
  "slugPattern_test path = (list_all slug_char path \<and> 3 \<le> length path \<and> length path \<le> 30)"

text \<open>The result \<open>null\<close> is \<open>None\<close>.\<close>

definition extractSlug :: "string \<Rightarrow> string option" where
  "extractSlug pathname =
     (let path = split_head (CHR ''#'') (split_head (CHR ''?'') (strip_leading_slash pathname))
      in if path = [] \<or> path = ''index.html'' \<or> startsWith path ''api/'' then None
         else if slugPattern_test path then Some (toLowerCase path)
         else None)"

text \<open>
  The slug extractor as the specification words it: strip one leading slash, cut at the
  first \<open>?\<close> or \<open>#\<close>, reject the empty string, \<open>index.html\<close> and the prefix
  \<open>api/\<close>, reject what is not 3 to 30 characters of \<open>[a-z0-9-]\<close> in either case,
  and lower-case the rest.
\<close>

definition spec_remainder :: "string \<Rightarrow> string" where
  "spec_remainder pathname =
     takeWhile (\<lambda>c. c \<noteq> CHR ''?'' \<and> c \<noteq> CHR ''#'')
       (case pathname of [] \<Rightarrow> [] | c # cs \<Rightarrow> if c = CHR ''/'' then cs else pathname)"

definition spec_class :: "char \<Rightarrow> bool" where
  "spec_class c = (lower_char c \<in> set ''abcdefghijklmnopqrstuvwxyz0123456789-'')"

definition spec_rejects :: "string \<Rightarrow> bool" where
  "spec_rejects r =
     (r = [] \<or> r = ''index.html'' \<or> prefix ''api/'' r
      \<or> \<not> list_all spec_class r \<or> length r < 3 \<or> 30 < length r)"

definition extractSlug_spec :: "string \<Rightarrow> string option" where
  "extractSlug_spec pathname =
     (if spec_rejects (spec_remainder pathname) then None
      else Some (map lower_char (spec_remainder pathname)))"

subsection \<open>Domain normalization\<close>

text \<open>
  \<open>hostname.replace(/^www\<bslash>./, '')\<close>, line 166 of the handler: the pattern is anchored
  and has no flag, so it matches the four characters \<open>www.\<close> at the start, once.
\<close>

definition normalize_domain :: "string \<Rightarrow> string" where
  "normalize_domain hostname =
     (if take 4 hostname = ''www.'' then drop 4 hostname else hostname)"

subsection \<open>Values, exceptions and records of the datastore\<close>

text \<open>
  The values the worker reads from a row and from its environment: the columns it selects
  are text and boolean columns, a column may be null, and a field that a row does not have
  reads as \<open>undefined\<close>.
\<close>

datatype jsval = JUndefined | JNull | JBool bool | JStr string

text \<open>\<open>!v\<close> is \<open>\<not> truthy v\<close>.\<close>

fun truthy :: "jsval \<Rightarrow> bool" where
  "truthy JUndefined = False"
| "truthy JNull = False"
| "truthy (JBool b) = b"
| "truthy (JStr s) = (s \<noteq> [])"

text \<open>The conversion to a string that a template literal and the platform's string
  parameters apply.\<close>

fun ToString :: "jsval \<Rightarrow> string" where
  "ToString JUndefined = ''undefined''"
| "ToString JNull = ''null''"
| "ToString (JBool b) = (if b then ''true'' else ''false'')"
| "ToString (JStr s) = s"

datatype exn = TypeError | SyntaxError | RangeError

text \<open>\<open>try { body } catch (error) { handler }\<close>\<close>

definition try_catch :: "exn + 'a \<Rightarrow> (exn \<Rightarrow> exn + 'a) \<Rightarrow> exn + 'a" where
  "try_catch body handler = (case body of Inl error \<Rightarrow> handler error | Inr v \<Rightarrow> Inr v)"

record link =
  target_url :: jsval
  parameter_pass_through :: jsval
  utm_source :: jsval
  utm_medium :: jsval
  utm_campaign :: jsval
  utm_content :: jsval
  status :: jsval

subsection \<open>The platform's URL objects\<close>

text \<open>
  A parsed URL. \<open>searchParams\<close> is the list of name-value pairs of its query, which is
  also what \<open>new URLSearchParams(url.search)\<close> yields. The URL parser and serializer are
  the platform's, not the worker's: they are parameters of the model. \<open>url_parse\<close> is
  \<open>new URL(s)\<close> without a base, \<open>None\<close> where it throws a TypeError; \<open>url_href\<close>
  is \<open>url.toString()\<close>.
\<close>

record url =
  protocol :: string
  hostname :: string
  port :: string
  pathname :: string
  searchParams :: "(string \<times> string) list"
  hash :: string

record platform =
  url_parse :: "string \<Rightarrow> url option"
  url_href :: "url \<Rightarrow> string"

text \<open>
  \<open>searchParams.set(name, value)\<close>: the first pair named \<open>name\<close> takes the value and
  the other pairs of that name are removed; without such a pair one is appended.
\<close>

fun searchParams_set :: "string \<Rightarrow> string \<Rightarrow> (string \<times> string) list \<Rightarrow> (string \<times> string) list" where
  "searchParams_set name v [] = [(name, v)]"
| "searchParams_set name v (p # ps) =
     (if fst p = name then (name, v) # filter (\<lambda>q. fst q \<noteq> name) ps
      else p # searchParams_set name v ps)"

definition set_param :: "string \<Rightarrow> string \<Rightarrow> url \<Rightarrow> url" where
  "set_param name v target = target\<lparr>searchParams := searchParams_set name v (searchParams target)\<rparr>"

subsection \<open>buildTargetUrl\<close>

definition utm_keys :: "string list" where
  "utm_keys = [''utm_source'', ''utm_medium'', ''utm_campaign'', ''utm_content'']"

text \<open>Lines 55 to 66: the four configured UTM values, each set when it is truthy.\<close>

definition set_if_configured :: "string \<Rightarrow> jsval \<Rightarrow> url \<Rightarrow> url" where
  "set_if_configured name v target = (if truthy v then set_param name (ToString v) target else target)"

definition apply_utm :: "link \<Rightarrow> url \<Rightarrow> url" where
  "apply_utm linkData target =
     set_if_configured ''utm_content'' (utm_content linkData)
       (set_if_configured ''utm_campaign'' (utm_campaign linkData)
         (set_if_configured ''utm_medium'' (utm_medium linkData)
           (set_if_configured ''utm_source'' (utm_source linkData) target)))"

text \<open>Lines 70 to 75: the loop over the entries of the request's query.\<close>

definition pass_step :: "url \<Rightarrow> string \<times> string \<Rightarrow> url" where
  "pass_step target entry =
     (if fst entry \<in> set utm_keys then target else set_param (fst entry) (snd entry) target)"

definition pass_through :: "(string \<times> string) list \<Rightarrow> url \<Rightarrow> url" where
  "pass_through requestParams target = foldl pass_step target requestParams"

text \<open>The URL object \<open>target\<close> as it is when line 78 serializes it.\<close>

definition compose_target :: "url \<Rightarrow> link \<Rightarrow> url \<Rightarrow> url" where
  "compose_target target linkData requestUrl =
     (let requestParams = searchParams requestUrl;
          target1 = apply_utm linkData target
      in if truthy (parameter_pass_through linkData) then pass_through requestParams target1
         else target1)"

text \<open>The body of the \<open>try\<close>: only \<open>new URL(targetUrl)\<close> can throw.\<close>

definition buildTargetUrl_try :: "platform \<Rightarrow> jsval \<Rightarrow> link \<Rightarrow> url \<Rightarrow> exn + jsval" where
  "buildTargetUrl_try P targetUrl linkData requestUrl =
     (case url_parse P (ToString targetUrl) of
        None \<Rightarrow> Inl TypeError
      | Some target \<Rightarrow> Inr (JStr (url_href P (compose_target target linkData requestUrl))))"

definition buildTargetUrl :: "platform \<Rightarrow> jsval \<Rightarrow> link \<Rightarrow> url \<Rightarrow> exn + jsval" where
  "buildTargetUrl P targetUrl linkData requestUrl =
     try_catch (buildTargetUrl_try P targetUrl linkData requestUrl) (\<lambda>error. Inr targetUrl)"

subsection \<open>getLinkFromSupabase\<close>

text \<open>
  \<open>encodeURIComponent\<close> on the bytes of the text: the unreserved characters stay, every
  other byte becomes \<open>%\<close> and two upper-case hexadecimal digits. (On a JavaScript string
  with an unpaired surrogate the function throws; such a string is no text and has no
  UTF-8 form, so it is outside this model.)
\<close>

definition uri_unreserved :: "char \<Rightarrow> bool" where
  "uri_unreserved c =
     (is_lower c \<or> is_upper c \<or> is_digit c \<or> c \<in> set ''-_.!~*()'' \<or> c = CHR 0x27)"

definition hex_digit :: "nat \<Rightarrow> char" where
  "hex_digit n = ''0123456789ABCDEF'' ! (n mod 16)"

definition percent_encode :: "char \<Rightarrow> string" where
  "percent_encode c =
     [CHR ''%'', hex_digit ((of_char c :: nat) div 16), hex_digit ((of_char c :: nat) mod 16)]"

definition encode_char :: "char \<Rightarrow> string" where
  "encode_char c = (if uri_unreserved c then [c] else percent_encode c)"

definition encodeURIComponent :: "string \<Rightarrow> string" where
  "encodeURIComponent s = concat (map encode_char s)"

text \<open>
  One call of the platform's \<open>fetch(url, {method, headers})\<close>, and what comes back: the
  promise rejects, or a response arrives with a status and a body. The body is unreadable
  (the transfer breaks), is not JSON, is the JSON \<open>null\<close>, or is the JSON array of rows
  that the datastore's REST interface answers with.
\<close>

record fetch_call =
  call_url :: string
  call_method :: string
  call_headers :: "(string \<times> string) list"

datatype body = BodyUnreadable | BodyMalformed | BodyNull | BodyRows "link list"

datatype fetch_result = FetchRejected | FetchResponse nat body

type_synonym network = "fetch_call \<Rightarrow> fetch_result"

text \<open>\<open>response.ok\<close>\<close>

definition response_ok :: "nat \<Rightarrow> bool" where
  "response_ok st = (200 \<le> st \<and> st \<le> 299)"

text \<open>\<open>await response.text()\<close>: the text is only logged, so only a failure is kept.\<close>

fun response_text :: "body \<Rightarrow> exn + unit" where
  "response_text BodyUnreadable = Inl TypeError"
| "response_text b = Inr ()"

text \<open>\<open>await response.json()\<close>: \<open>Inr None\<close> is the value \<open>null\<close>.\<close>

fun response_json :: "body \<Rightarrow> exn + link list option" where
  "response_json BodyUnreadable = Inl TypeError"
| "response_json BodyMalformed = Inl SyntaxError"
| "response_json BodyNull = Inr None"
| "response_json (BodyRows rows) = Inr (Some rows)"

definition select_columns :: string where
  "select_columns =
     ''target_url,parameter_pass_through,utm_source,utm_medium,utm_campaign,utm_content,status''"

text \<open>Lines 98 to 108: the URL and the options of the one \<open>fetch\<close>.\<close>

definition supabase_call :: "string \<Rightarrow> string \<Rightarrow> string \<Rightarrow> string \<Rightarrow> fetch_call" where
  "supabase_call slug domain supabaseUrl supabaseKey =
     \<lparr>call_url = supabaseUrl @ ''/rest/v1/links?slug=eq.'' @ encodeURIComponent slug
                  @ ''&domain=eq.'' @ encodeURIComponent domain
                  @ ''&select='' @ select_columns,
      call_method = ''GET'',
      call_headers = [(''apikey'', supabaseKey),
                      (''Authorization'', ''Bearer '' @ supabaseKey),
                      (''Content-Type'', ''application/json''),
                      (''Prefer'', ''return=representation'')]\<rparr>"

text \<open>Lines 110 to 128, on what the call returned. \<open>Inr None\<close> is \<open>return null\<close>.\<close>

definition read_link :: "fetch_result \<Rightarrow> exn + link option" where
  "read_link r =
     (case r of
        FetchRejected \<Rightarrow> Inl TypeError
      | FetchResponse st b \<Rightarrow>
          if \<not> response_ok st then
            (case response_text b of Inl error \<Rightarrow> Inl error | Inr t \<Rightarrow> Inr None)
          else
            (case response_json b of
               Inl error \<Rightarrow> Inl error
             | Inr None \<Rightarrow> Inr None
             | Inr (Some data) \<Rightarrow>
                 (case data of
                    [] \<Rightarrow> Inr None
                  | link # rest \<Rightarrow>
                      if status link \<noteq> JUndefined \<and> status link = JBool False then Inr None
                      else Inr (Some link))))"

text \<open>
  The function: the body of its \<open>try\<close> is the call and \<open>read_link\<close> on what
  came back, and its \<open>catch\<close> is \<open>return null\<close>. The result is what the function
  returns (\<open>Inr None\<close> for \<open>null\<close>) or the exception that leaves it, with the list
  of the calls it made to the network.
\<close>

definition getLinkFromSupabase ::
    "network \<Rightarrow> string \<Rightarrow> string \<Rightarrow> string \<Rightarrow> string
      \<Rightarrow> (exn + link option) \<times> fetch_call list" where
  "getLinkFromSupabase net slug domain supabaseUrl supabaseKey =
     (let call = supabase_call slug domain supabaseUrl supabaseKey
      in (try_catch (read_link (net call)) (\<lambda>error. Inr None), [call]))"

subsection \<open>The handler\<close>

record env =
  SUPABASE_URL :: jsval
  SUPABASE_SERVICE_ROLE_KEY :: jsval

record request =
  req_method :: string
  req_url :: string

text \<open>A response: its status, the headers given to its constructor, and its body.\<close>

record response =
  resp_status :: nat
  resp_headers :: "(string \<times> string) list"
  resp_body :: string

definition config_error :: response where
  "config_error = \<lparr>resp_status = 500, resp_headers = [], resp_body = ''Service configuration error''\<rparr>"

definition not_found :: response where
  "not_found = \<lparr>resp_status = 404, resp_headers = [(''Content-Type'', ''text/plain'')],
                 resp_body = ''Link not found''\<rparr>"

definition internal_error :: response where
  "internal_error = \<lparr>resp_status = 500, resp_headers = [(''Content-Type'', ''text/plain'')],
                      resp_body = ''Internal server error''\<rparr>"

text \<open>
  \<open>Response.redirect(url, status)\<close> of the Fetch standard: the URL is parsed (the worker
  runtime has no base URL to resolve against), a failure is a TypeError, a status that is
  not a redirect status is a RangeError, and the response carries the serialized URL in
  \<open>Location\<close>.
\<close>

definition Response_redirect :: "platform \<Rightarrow> jsval \<Rightarrow> nat \<Rightarrow> exn + response" where
  "Response_redirect P u st =
     (case url_parse P (ToString u) of
        None \<Rightarrow> Inl TypeError
      | Some parsed \<Rightarrow>
          if st \<in> set [301, 302, 303, 307, 308]
          then Inr \<lparr>resp_status = st, resp_headers = [(''Location'', url_href P parsed)],
                    resp_body = []\<rparr>
          else Inl RangeError)"

text \<open>Lines 141 to 194, the body of the handler's \<open>try\<close>, with the calls made.\<close>

definition fetch_try ::
    "platform \<Rightarrow> network \<Rightarrow> request \<Rightarrow> env \<Rightarrow> (exn + response) \<times> fetch_call list" where
  "fetch_try P net request env =
     (if \<not> truthy (SUPABASE_URL env) \<or> \<not> truthy (SUPABASE_SERVICE_ROLE_KEY env)
      then (Inr config_error, [])
      else
        (case url_parse P (req_url request) of
           None \<Rightarrow> (Inl TypeError, [])
         | Some url \<Rightarrow>
             (case extractSlug (pathname url) of
                None \<Rightarrow> (Inr not_found, [])
              | Some slug \<Rightarrow>
                  if slug = [] then (Inr not_found, [])
                  else
                    (let domain = normalize_domain (hostname url);
                         found = getLinkFromSupabase net slug domain
                                   (ToString (SUPABASE_URL env))
                                   (ToString (SUPABASE_SERVICE_ROLE_KEY env));
                         calls = snd found
                     in (case fst found of
                           Inl error \<Rightarrow> (Inl error, calls)
                         | Inr None \<Rightarrow> (Inr not_found, calls)
                         | Inr (Some linkData) \<Rightarrow>
                             if \<not> truthy (target_url linkData) then (Inr not_found, calls)
                             else
                               (case buildTargetUrl P (target_url linkData) linkData url of
                                  Inl error \<Rightarrow> (Inl error, calls)
                                | Inr finalUrl \<Rightarrow> (Response_redirect P finalUrl 301, calls)))))))"

text \<open>The handler: the \<open>catch\<close> turns every exception into the internal-error response.\<close>

definition fetch :: "platform \<Rightarrow> network \<Rightarrow> request \<Rightarrow> env \<Rightarrow> response \<times> fetch_call list" where
  "fetch P net request env =
     (case fetch_try P net request env of
        (Inl error, calls) \<Rightarrow> (internal_error, calls)
      | (Inr r, calls) \<Rightarrow> (r, calls))"

text \<open>The call that the handler's lookup makes for a request URL and its slug (lines 166 to 176).\<close>

definition lookup_call :: "env \<Rightarrow> url \<Rightarrow> string \<Rightarrow> fetch_call" where
  "lookup_call env url slug =
     supabase_call slug (normalize_domain (hostname url))
       (ToString (SUPABASE_URL env)) (ToString (SUPABASE_SERVICE_ROLE_KEY env))"

subsection \<open>The datastore outcomes that count as faults\<close>

text \<open>
  The outcomes that the specification maps to "not found": a status that is not 2xx, an
  exception of the transport (the call rejects, or the body cannot be read), an exception of
  the JSON parser, and an empty array of rows.
\<close>

fun store_fault :: "fetch_result \<Rightarrow> bool" where
  "store_fault FetchRejected = True"
| "store_fault (FetchResponse st b) =
     (if response_ok st then b = BodyUnreadable \<or> b = BodyMalformed \<or> b = BodyRows []
      else True)"

subsection \<open>Reading a query\<close>

text \<open>\<open>searchParams.getAll(name)\<close>: the values of the pairs named \<open>name\<close>, in order.\<close>

definition getAll :: "string \<Rightarrow> (string \<times> string) list \<Rightarrow> string list" where
  "getAll name ps = map snd (filter (\<lambda>q. fst q = name) ps)"

subsection \<open>A small concrete platform\<close>

text \<open>
  To run the handler on concrete requests the parameters need values. This platform parses
  \<open>https://host/path?query#fragment\<close> with a non-empty host, splits the query at \<open>&\<close>
  and \<open>=\<close>, and serializes a URL back from its parts. It stands in for the runtime's URL
  class on such inputs only.
\<close>

fun split_on :: "char \<Rightarrow> string \<Rightarrow> string list" where
  "split_on c [] = [[]]"
| "split_on c (x # xs) =
     (if x = c then [] # split_on c xs
      else (case split_on c xs of [] \<Rightarrow> [[x]] | p # ps \<Rightarrow> (x # p) # ps))"

definition demo_pair :: "string \<Rightarrow> string \<times> string" where
  "demo_pair s = (takeWhile (\<lambda>c. c \<noteq> CHR ''='') s, drop 1 (dropWhile (\<lambda>c. c \<noteq> CHR ''='') s))"

definition demo_query :: "string \<Rightarrow> (string \<times> string) list" where
  "demo_query q = map demo_pair (filter (\<lambda>s. s \<noteq> []) (split_on (CHR ''&'') q))"

definition demo_parse :: "string \<Rightarrow> url option" where
  "demo_parse s =
     (let rest = drop 8 s;
          host = takeWhile (\<lambda>c. c \<notin> set ''/?#'') rest;
          r1 = dropWhile (\<lambda>c. c \<notin> set ''/?#'') rest;
          path = takeWhile (\<lambda>c. c \<notin> set ''?#'') r1;
          r2 = dropWhile (\<lambda>c. c \<notin> set ''?#'') r1;
          query = (if take 1 r2 = ''?'' then takeWhile (\<lambda>c. c \<noteq> CHR ''#'') (drop 1 r2) else []);
          frag = dropWhile (\<lambda>c. c \<noteq> CHR ''#'') r2
      in if take 8 s = ''https://'' \<and> host \<noteq> []
         then Some \<lparr>protocol = ''https:'', hostname = host, port = [],
                    pathname = (if path = [] then ''/'' else path),
                    searchParams = demo_query query, hash = frag\<rparr>
         else None)"

fun demo_serialize :: "(string \<times> string) list \<Rightarrow> string" where
  "demo_serialize [] = []"
| "demo_serialize [p] = fst p @ ''='' @ snd p"
| "demo_serialize (p # ps) = fst p @ ''='' @ snd p @ ''&'' @ demo_serialize ps"

definition demo_href :: "url \<Rightarrow> string" where
  "demo_href u =
     protocol u @ ''//'' @ hostname u @ pathname u
       @ (if searchParams u = [] then [] else CHR ''?'' # demo_serialize (searchParams u))
       @ hash u"

definition demo_platform :: platform where
  "demo_platform = \<lparr>url_parse = demo_parse, url_href = demo_href\<rparr>"

definition demo_env :: env where
  "demo_env = \<lparr>SUPABASE_URL = JStr ''https://db.example'',
                SUPABASE_SERVICE_ROLE_KEY = JStr ''secret''\<rparr>"

definition empty_link :: link where
  "empty_link = \<lparr>target_url = JUndefined, parameter_pass_through = JUndefined,
                  utm_source = JUndefined, utm_medium = JUndefined, utm_campaign = JUndefined,
                  utm_content = JUndefined, status = JUndefined\<rparr>"

definition demo_request :: request where
  "demo_request = \<lparr>req_method = ''GET'', req_url = ''https://goodlink.ai/abc123''\<rparr>"

text \<open>A datastore that answers every call with status 200 and the given rows.\<close>

definition rows_net :: "link list \<Rightarrow> network" where
  "rows_net rows call = FetchResponse 200 (BodyRows rows)"

text \<open>A datastore that answers every call with the given status and an empty array.\<close>

definition status_net :: "nat \<Rightarrow> network" where
  "status_net st call = FetchResponse st (BodyRows [])"

text \<open>The URL of a request to \<open>https://goodlink.ai/abc123?utm_source=hack&ref=x\<close>.\<close>

definition demo_url :: url where
  "demo_url = \<lparr>protocol = ''https:'', hostname = ''goodlink.ai'', port = [],
                pathname = ''/abc123'',
                searchParams = [(''utm_source'', ''hack''), (''ref'', ''x'')], hash = []\<rparr>"

text \<open>A network on which every call is rejected, and one that answers with text that is no JSON.\<close>

definition rejecting_net :: network where
  "rejecting_net call = FetchRejected"

definition garbled_net :: network where
  "garbled_net call = FetchResponse 200 BodyMalformed"

text \<open>The URL object of \<open>demo_request\<close>.\<close>

definition plain_url :: url where
  "plain_url = \<lparr>protocol = ''https:'', hostname = ''goodlink.ai'', port = [],
                 pathname = ''/abc123'', searchParams = [], hash = []\<rparr>"

text \<open>
  The record and the parsed target of the specification's example:
  \<open>{target_url: "https://dest.example/page", utm_source: "nl"}\<close>, with and without
  \<open>parameter_pass_through\<close>.
\<close>

definition nl_link :: link where
  "nl_link = empty_link\<lparr>target_url := JStr ''https://dest.example/page'',
                         utm_source := JStr ''nl''\<rparr>"

definition nl_link_pass :: link where
  "nl_link_pass = nl_link\<lparr>parameter_pass_through := JBool True\<rparr>"

definition dest_url :: url where
  "dest_url = \<lparr>protocol = ''https:'', hostname = ''dest.example'', port = [],
                pathname = ''/page'', searchParams = [], hash = []\<rparr>"

section \<open>Properties\<close>

subsection \<open>The slug extractor\<close>

lemma takeWhile_twice:
  "takeWhile P (takeWhile Q xs) = takeWhile (\<lambda>x. Q x \<and> P x) xs"
  by (induction xs) auto

lemma is_lower_set: "is_lower c \<longleftrightarrow> c \<in> set ''abcdefghijklmnopqrstuvwxyz''"
  by (cases c) (simp add: is_lower_def; argo?)

lemma is_digit_set: "is_digit c \<longleftrightarrow> c \<in> set ''0123456789''"
  by (cases c) (simp add: is_digit_def; argo?)

lemma lower_char_upper:
  assumes "is_upper c"
  shows "is_lower (lower_char c)"
proof -
  have "of_char (lower_char c) = (of_char c :: nat) + 32"
    using assms by (simp add: lower_char_def is_upper_def)
  then show ?thesis using assms by (simp add: is_lower_def is_upper_def)
qed

lemma lower_char_other: "\<not> is_upper c \<Longrightarrow> lower_char c = c"
  by (simp add: lower_char_def)

lemma slug_char_spec_class: "slug_char c = spec_class c"
proof (cases "is_upper c")
  case True
  then have "is_lower (lower_char c)" by (rule lower_char_upper)
  then have "spec_class c"
    unfolding spec_class_def is_lower_set by auto
  with True show ?thesis by (simp add: slug_char_def)
next
  case False
  then have "spec_class c = (is_lower c \<or> is_digit c \<or> c = CHR ''-'')"
    unfolding spec_class_def is_lower_set is_digit_set by (auto simp: lower_char_other)
  with False show ?thesis by (simp add: slug_char_def)
qed

lemma slugPattern_spec:
  "slugPattern_test r = (list_all spec_class r \<and> 3 \<le> length r \<and> length r \<le> 30)"
  by (simp add: slugPattern_test_def list_all_iff slug_char_spec_class)

lemma startsWith_prefix: "startsWith s p = prefix p s"
  by (auto simp: startsWith_def prefix_def) (metis append_take_drop_id)

lemma source_remainder:
  "split_head (CHR ''#'') (split_head (CHR ''?'') (strip_leading_slash p)) = spec_remainder p"
  by (cases p) (auto simp: split_head_def spec_remainder_def takeWhile_twice)

lemma extractSlug_refines: "extractSlug p = extractSlug_spec p"
  unfolding extractSlug_def extractSlug_spec_def Let_def source_remainder
    spec_rejects_def slugPattern_spec startsWith_prefix toLowerCase_def
  by auto

lemmas slug_eval = extractSlug_def split_head_def startsWith_def slugPattern_test_def
  slug_char_def is_lower_def is_upper_def is_digit_def toLowerCase_def lower_char_def
  char_of_eq_iff

lemma extractSlug_long: "extractSlug (CHR ''/'' # replicate 31 (CHR ''a'')) = None"
  by (simp add: extractSlug_def split_head_def startsWith_def slugPattern_test_def Let_def)

lemma extractSlug_nonempty: "extractSlug p = Some s \<Longrightarrow> s \<noteq> []"
  by (auto simp: extractSlug_def Let_def toLowerCase_def split: if_splits)

text \<open>
  C7. On every pathname \<open>extractSlug\<close> agrees with the extractor as the specification
  words it: one leading slash stripped, everything from the first \<open>?\<close> or \<open>#\<close>
  discarded, no slug for the empty remainder, for \<open>index.html\<close>, for the prefix
  \<open>api/\<close> and for what is not 3 to 30 characters of \<open>[a-z0-9-]\<close> in either case,
  and the remainder lower-cased otherwise. The seven listed examples give the listed results.
\<close>

theorem extractSlug_contract:
  "extractSlug p = extractSlug_spec p
   \<and> extractSlug ''/abc123'' = Some ''abc123''
   \<and> extractSlug ''/AB-12?x=1'' = Some ''ab-12''
   \<and> extractSlug ''/'' = None
   \<and> extractSlug ''/index.html'' = None
   \<and> extractSlug ''/api/foo'' = None
   \<and> extractSlug ''/ab'' = None
   \<and> extractSlug (CHR ''/'' # replicate 31 (CHR ''a'')) = None"
proof -
  have "extractSlug ''/abc123'' = Some ''abc123''" by (simp add: slug_eval)
  moreover have "extractSlug ''/AB-12?x=1'' = Some ''ab-12''" by (simp add: slug_eval)
  moreover have "extractSlug ''/'' = None" by (simp add: slug_eval)
  moreover have "extractSlug ''/index.html'' = None" by (simp add: slug_eval)
  moreover have "extractSlug ''/api/foo'' = None" by (simp add: slug_eval)
  moreover have "extractSlug ''/ab'' = None" by (simp add: slug_eval)
  ultimately show ?thesis using extractSlug_refines extractSlug_long by simp
qed

theorem extractSlug_contract_witness:
  "extractSlug_spec ''/My-Link-01#top'' = Some ''my-link-01''
   \<and> extractSlug_spec ''/a_b'' = None"
proof -
  have "extractSlug ''/My-Link-01#top'' = Some ''my-link-01''" by (simp add: slug_eval)
  moreover have "extractSlug ''/a_b'' = None" by (simp add: slug_eval)
  ultimately show ?thesis
    using extractSlug_contract [of "''/My-Link-01#top''"] extractSlug_contract [of "''/a_b''"]
    by simp
qed

subsection \<open>The domain normalizer\<close>

text \<open>
  C10. Domain normalization removes the prefix \<open>www.\<close> once (what follows it is
  returned as it is, also when it starts with \<open>www.\<close> again), and returns every
  hostname without that exact, lower-case prefix unchanged: no port is stripped and no
  case is folded.
\<close>

theorem normalize_domain_contract:
  "normalize_domain (''www.'' @ r) = r
   \<and> (\<not> prefix ''www.'' h \<longrightarrow> normalize_domain h = h)"
proof -
  have "take 4 h = ''www.'' \<Longrightarrow> prefix ''www.'' h"
    by (metis take_is_prefix)
  then show ?thesis by (auto simp: normalize_domain_def)
qed

theorem normalize_domain_contract_witness:
  "normalize_domain ''www.goodlink.ai'' = ''goodlink.ai''
   \<and> normalize_domain ''www.www.goodlink.ai'' = ''www.goodlink.ai''
   \<and> \<not> prefix ''www.'' ''glynk.io'' \<and> normalize_domain ''glynk.io'' = ''glynk.io''
   \<and> \<not> prefix ''www.'' ''WWW.Glynk.io:8080''
   \<and> normalize_domain ''WWW.Glynk.io:8080'' = ''WWW.Glynk.io:8080''"
  using normalize_domain_contract [of "''goodlink.ai''" "''glynk.io''"]
    normalize_domain_contract [of "''www.goodlink.ai''" "''WWW.Glynk.io:8080''"]
  by simp

subsection \<open>Configuration\<close>

text \<open>
  C9. When the datastore base URL or the credential is absent (or empty) in the
  environment, the response is the 500 configuration error, whatever the request, the
  platform and the network are, and no outbound call is made: the check comes before the
  request URL is parsed, before the slug and the domain are computed and before the lookup.
\<close>

theorem missing_configuration:
  "\<not> truthy (SUPABASE_URL env) \<or> \<not> truthy (SUPABASE_SERVICE_ROLE_KEY env) \<Longrightarrow>
   fetch P net request env =
     (\<lparr>resp_status = 500, resp_headers = [], resp_body = ''Service configuration error''\<rparr>, [])"
  by (auto simp: fetch_def fetch_try_def config_error_def)

theorem missing_configuration_witness:
  "fetch demo_platform (rows_net []) demo_request
       (demo_env\<lparr>SUPABASE_SERVICE_ROLE_KEY := JUndefined\<rparr>) =
     (\<lparr>resp_status = 500, resp_headers = [], resp_body = ''Service configuration error''\<rparr>, [])
   \<and> fetch demo_platform (rows_net []) demo_request (demo_env\<lparr>SUPABASE_URL := JStr ''''\<rparr>) =
     (\<lparr>resp_status = 500, resp_headers = [], resp_body = ''Service configuration error''\<rparr>, [])"
  using missing_configuration [of "demo_env\<lparr>SUPABASE_SERVICE_ROLE_KEY := JUndefined\<rparr>"
      demo_platform "rows_net []" demo_request]
    missing_configuration [of "demo_env\<lparr>SUPABASE_URL := JStr ''''\<rparr>"
      demo_platform "rows_net []" demo_request]
  by (simp add: demo_env_def)

subsection \<open>The composer never throws\<close>

text \<open>
  C3. \<open>buildTargetUrl\<close> is total: on every string \<open>targetUrl\<close>, every link and every
  request URL it returns a string and throws nothing; when \<open>targetUrl\<close> does not parse
  as a URL it returns \<open>targetUrl\<close> itself.
\<close>

theorem buildTargetUrl_total:
  "(\<exists>s. buildTargetUrl P (JStr t) linkData requestUrl = Inr (JStr s))
   \<and> (url_parse P t = None \<longrightarrow> buildTargetUrl P (JStr t) linkData requestUrl = Inr (JStr t))"
  by (simp add: buildTargetUrl_def buildTargetUrl_try_def try_catch_def split: option.split)

lemma demo_parse_not_a_url: "demo_parse ''not a url'' = None"
  by (simp add: demo_parse_def)

theorem buildTargetUrl_total_witness:
  "url_parse demo_platform ''not a url'' = None
   \<and> buildTargetUrl demo_platform (JStr ''not a url'') empty_link demo_url
       = Inr (JStr ''not a url'')"
  using buildTargetUrl_total [of demo_platform "''not a url''" empty_link demo_url]
    demo_parse_not_a_url
  by (simp add: demo_platform_def)

subsection \<open>The outbound call\<close>

lemma hex_digit_unreserved: "uri_unreserved (hex_digit n)"
proof -
  have "hex_digit n \<in> set ''0123456789ABCDEF''"
    unfolding hex_digit_def by (rule nth_mem) simp
  moreover have "\<forall>c \<in> set ''0123456789ABCDEF''. uri_unreserved c"
    by (simp add: uri_unreserved_def is_digit_def is_upper_def is_lower_def)
  ultimately show ?thesis by blast
qed

lemma encode_char_safe: "list_all (\<lambda>x. uri_unreserved x \<or> x = CHR ''%'') (encode_char c)"
  by (simp add: encode_char_def percent_encode_def hex_digit_unreserved)

lemma encodeURIComponent_safe:
  "list_all (\<lambda>x. uri_unreserved x \<or> x = CHR ''%'') (encodeURIComponent s)"
  by (induction s) (simp_all add: encodeURIComponent_def encode_char_safe)

lemma getLinkFromSupabase_calls:
  "snd (getLinkFromSupabase net slug domain supabaseUrl supabaseKey) =
     [supabase_call slug domain supabaseUrl supabaseKey]"
  by (simp add: getLinkFromSupabase_def Let_def)

text \<open>
  C8. Whatever the network answers, \<open>getLinkFromSupabase\<close> makes exactly one call: a GET
  of \<open>{BASE_URL}/rest/v1/links\<close> with the query \<open>slug=eq.\<close> and \<open>domain=eq.\<close>
  followed by the percent-encoded slug and domain, and the fixed list of the seven
  selected columns, with the headers \<open>apikey\<close> and \<open>Authorization: Bearer\<close> carrying
  the same credential, \<open>Content-Type: application/json\<close> and
  \<open>Prefer: return=representation\<close>. The encoded values consist of unreserved characters
  and percent escapes only.
\<close>

theorem getLinkFromSupabase_request:
  "snd (getLinkFromSupabase net slug domain supabaseUrl supabaseKey) =
     [\<lparr>call_url = supabaseUrl @ ''/rest/v1/links?slug=eq.'' @ encodeURIComponent slug
                   @ ''&domain=eq.'' @ encodeURIComponent domain
                   @ ''&select=target_url,parameter_pass_through,utm_source,utm_medium,utm_campaign,utm_content,status'',
       call_method = ''GET'',
       call_headers = [(''apikey'', supabaseKey),
                       (''Authorization'', ''Bearer '' @ supabaseKey),
                       (''Content-Type'', ''application/json''),
                       (''Prefer'', ''return=representation'')]\<rparr>]
   \<and> list_all (\<lambda>x. uri_unreserved x \<or> x = CHR ''%'') (encodeURIComponent slug)
   \<and> list_all (\<lambda>x. uri_unreserved x \<or> x = CHR ''%'') (encodeURIComponent domain)"
  by (simp add: getLinkFromSupabase_calls supabase_call_def select_columns_def
      encodeURIComponent_safe)

lemmas encode_eval = encodeURIComponent_def encode_char_def percent_encode_def hex_digit_def
  uri_unreserved_def is_lower_def is_upper_def is_digit_def

lemma encode_example: "encodeURIComponent ''a b&c'' = ''a%20b%26c''"
  by (simp add: encode_eval)

lemma encode_host: "encodeURIComponent ''glynk.io'' = ''glynk.io''"
  by (simp add: encode_eval)

theorem getLinkFromSupabase_request_witness:
  "snd (getLinkFromSupabase (status_net 503) ''a b&c'' ''glynk.io'' ''https://db.example''
         ''secret'') =
     [\<lparr>call_url = ''https://db.example/rest/v1/links?slug=eq.a%20b%26c&domain=eq.glynk.io&select=target_url,parameter_pass_through,utm_source,utm_medium,utm_campaign,utm_content,status'',
       call_method = ''GET'',
       call_headers = [(''apikey'', ''secret''),
                       (''Authorization'', ''Bearer secret''),
                       (''Content-Type'', ''application/json''),
                       (''Prefer'', ''return=representation'')]\<rparr>]"
  using getLinkFromSupabase_request [of "status_net 503" "''a b&c''" "''glynk.io''"
      "''https://db.example''" "''secret''"]
  by (simp add: encode_example encode_host)

subsection \<open>The handler after the lookup\<close>

lemma getLink_fault:
  "store_fault (net (supabase_call slug domain u k)) \<Longrightarrow>
   fst (getLinkFromSupabase net slug domain u k) = Inr None"
  by (cases "net (supabase_call slug domain u k)")
     (auto simp: getLinkFromSupabase_def Let_def try_catch_def read_link_def
           split: if_splits body.splits sum.splits)

lemma getLink_rows:
  "net (supabase_call slug domain u k) = FetchResponse st (BodyRows (row # rest)) \<Longrightarrow>
   response_ok st \<Longrightarrow>
   fst (getLinkFromSupabase net slug domain u k)
     = Inr (if status row = JBool False then None else Some row)"
  by (auto simp: getLinkFromSupabase_def Let_def try_catch_def read_link_def)

lemma fetch_lookup_none:
  assumes "truthy (SUPABASE_URL env)" "truthy (SUPABASE_SERVICE_ROLE_KEY env)"
    and "url_parse P (req_url request) = Some url"
    and "extractSlug (pathname url) = Some slug"
    and "fst (getLinkFromSupabase net slug (normalize_domain (hostname url))
           (ToString (SUPABASE_URL env)) (ToString (SUPABASE_SERVICE_ROLE_KEY env))) = Inr None"
  shows "fetch P net request env = (not_found, [lookup_call env url slug])"
  using assms extractSlug_nonempty [OF assms(4)]
  by (simp add: fetch_def fetch_try_def Let_def getLinkFromSupabase_calls lookup_call_def)

lemma fetch_lookup_some:
  assumes "truthy (SUPABASE_URL env)" "truthy (SUPABASE_SERVICE_ROLE_KEY env)"
    and "url_parse P (req_url request) = Some url"
    and "extractSlug (pathname url) = Some slug"
    and "fst (getLinkFromSupabase net slug (normalize_domain (hostname url))
           (ToString (SUPABASE_URL env)) (ToString (SUPABASE_SERVICE_ROLE_KEY env)))
         = Inr (Some row)"
  shows "fetch P net request env =
     (if \<not> truthy (target_url row) then not_found
      else (case buildTargetUrl P (target_url row) row url of
              Inl error \<Rightarrow> internal_error
            | Inr finalUrl \<Rightarrow>
                (case Response_redirect P finalUrl 301 of
                   Inl error \<Rightarrow> internal_error | Inr r \<Rightarrow> r)),
      [lookup_call env url slug])"
  using assms extractSlug_nonempty [OF assms(4)]
  by (simp add: fetch_def fetch_try_def Let_def getLinkFromSupabase_calls lookup_call_def
      split: sum.splits)

text \<open>The handler on the first row of a successful answer.\<close>

lemma fetch_first_row:
  assumes "truthy (SUPABASE_URL env)" "truthy (SUPABASE_SERVICE_ROLE_KEY env)"
    and "url_parse P (req_url request) = Some url"
    and "extractSlug (pathname url) = Some slug"
    and "net (lookup_call env url slug) = FetchResponse st (BodyRows (row # rest))"
    and "response_ok st"
  shows "fetch P net request env =
     (if status row = JBool False \<or> \<not> truthy (target_url row) then not_found
      else (case buildTargetUrl P (target_url row) row url of
              Inl error \<Rightarrow> internal_error
            | Inr finalUrl \<Rightarrow>
                (case Response_redirect P finalUrl 301 of
                   Inl error \<Rightarrow> internal_error | Inr r \<Rightarrow> r)),
      [lookup_call env url slug])"
proof -
  have found: "fst (getLinkFromSupabase net slug (normalize_domain (hostname url))
           (ToString (SUPABASE_URL env)) (ToString (SUPABASE_SERVICE_ROLE_KEY env)))
         = Inr (if status row = JBool False then None else Some row)"
    using assms(5,6) unfolding lookup_call_def by (rule getLink_rows)
  show ?thesis
  proof (cases "status row = JBool False")
    case True
    with found fetch_lookup_none [OF assms(1-4)] show ?thesis by simp
  next
    case False
    with found fetch_lookup_some [OF assms(1-4), of net row] show ?thesis by simp
  qed
qed

lemma buildTargetUrl_unparsed:
  "url_parse P (ToString v) = None \<Longrightarrow> buildTargetUrl P v linkData requestUrl = Inr v"
  by (simp add: buildTargetUrl_def buildTargetUrl_try_def try_catch_def)

lemma buildTargetUrl_parsed:
  "url_parse P (ToString v) = Some target \<Longrightarrow>
   buildTargetUrl P v linkData requestUrl
     = Inr (JStr (url_href P (compose_target target linkData requestUrl)))"
  by (simp add: buildTargetUrl_def buildTargetUrl_try_def try_catch_def)

lemma redirect_unparsed:
  "url_parse P (ToString v) = None \<Longrightarrow> Response_redirect P v st = Inl TypeError"
  by (simp add: Response_redirect_def)

lemma redirect_parsed:
  "url_parse P (ToString v) = Some final \<Longrightarrow>
   Response_redirect P v 301 =
     Inr \<lparr>resp_status = 301, resp_headers = [(''Location'', url_href P final)], resp_body = []\<rparr>"
  by (simp add: Response_redirect_def)

subsection \<open>Facts of the concrete platform\<close>

lemma demo_config:
  "truthy (SUPABASE_URL demo_env)" "truthy (SUPABASE_SERVICE_ROLE_KEY demo_env)"
  by (simp_all add: demo_env_def)

lemma demo_request_parse: "url_parse demo_platform (req_url demo_request) = Some plain_url"
  by (simp add: demo_platform_def demo_request_def demo_parse_def plain_url_def demo_query_def)

lemma demo_slug: "extractSlug (pathname plain_url) = Some ''abc123''"
  by (simp add: plain_url_def slug_eval)

lemma demo_call:
  "lookup_call demo_env plain_url ''abc123'' =
     \<lparr>call_url = ''https://db.example/rest/v1/links?slug=eq.abc123&domain=eq.goodlink.ai&select=target_url,parameter_pass_through,utm_source,utm_medium,utm_campaign,utm_content,status'',
      call_method = ''GET'',
      call_headers = [(''apikey'', ''secret''), (''Authorization'', ''Bearer secret''),
                      (''Content-Type'', ''application/json''),
                      (''Prefer'', ''return=representation'')]\<rparr>"
  by (simp add: lookup_call_def supabase_call_def select_columns_def plain_url_def
      demo_env_def normalize_domain_def encode_eval)

lemma demo_parse_empty: "url_parse demo_platform [] = None"
  by (simp add: demo_platform_def demo_parse_def)

lemma demo_parse_x: "url_parse demo_platform ''https://x.com'' =
    Some \<lparr>protocol = ''https:'', hostname = ''x.com'', port = [], pathname = ''/'',
          searchParams = [], hash = []\<rparr>"
  by (simp add: demo_platform_def demo_parse_def demo_query_def)

lemma demo_parse_x_slash: "url_parse demo_platform ''https://x.com/'' =
    Some \<lparr>protocol = ''https:'', hostname = ''x.com'', port = [], pathname = ''/'',
          searchParams = [], hash = []\<rparr>"
  by (simp add: demo_platform_def demo_parse_def demo_query_def)

lemma demo_href_x: "url_href demo_platform \<lparr>protocol = ''https:'', hostname = ''x.com'', port = [],
      pathname = ''/'', searchParams = [], hash = []\<rparr> = ''https://x.com/''"
  by (simp add: demo_platform_def demo_href_def)

subsection \<open>Datastore faults\<close>

text \<open>
  C4. When the datastore's outcome is a status that is not 2xx, an empty array of rows, or
  an exception of the transport or of the JSON parser, \<open>getLinkFromSupabase\<close> returns
  \<open>null\<close> and no exception leaves it; and a request whose lookup has such an outcome is
  answered with the 404 not-found response (status 404, not 500).
\<close>

theorem datastore_fault_not_found:
  "(store_fault (net (supabase_call s d supabaseUrl supabaseKey)) \<longrightarrow>
      fst (getLinkFromSupabase net s d supabaseUrl supabaseKey) = Inr None)
   \<and> (truthy (SUPABASE_URL env) \<and> truthy (SUPABASE_SERVICE_ROLE_KEY env)
        \<and> url_parse P (req_url request) = Some url
        \<and> extractSlug (pathname url) = Some slug
        \<and> store_fault (net (lookup_call env url slug)) \<longrightarrow>
      fetch P net request env =
        (\<lparr>resp_status = 404, resp_headers = [(''Content-Type'', ''text/plain'')],
          resp_body = ''Link not found''\<rparr>,
         [lookup_call env url slug]))"
proof (intro conjI impI)
  assume "store_fault (net (supabase_call s d supabaseUrl supabaseKey))"
  then show "fst (getLinkFromSupabase net s d supabaseUrl supabaseKey) = Inr None"
    by (rule getLink_fault)
next
  assume a: "truthy (SUPABASE_URL env) \<and> truthy (SUPABASE_SERVICE_ROLE_KEY env)
        \<and> url_parse P (req_url request) = Some url
        \<and> extractSlug (pathname url) = Some slug
        \<and> store_fault (net (lookup_call env url slug))"
  then have "fst (getLinkFromSupabase net slug (normalize_domain (hostname url))
           (ToString (SUPABASE_URL env)) (ToString (SUPABASE_SERVICE_ROLE_KEY env))) = Inr None"
    by (intro getLink_fault) (simp add: lookup_call_def)
  with a have "fetch P net request env = (not_found, [lookup_call env url slug])"
    by (intro fetch_lookup_none) simp_all
  then show "fetch P net request env =
        (\<lparr>resp_status = 404, resp_headers = [(''Content-Type'', ''text/plain'')],
          resp_body = ''Link not found''\<rparr>,
         [lookup_call env url slug])"
    by (simp add: not_found_def)
qed

theorem datastore_fault_not_found_witness:
  "store_fault (status_net 503 (lookup_call demo_env plain_url ''abc123''))
   \<and> store_fault (rejecting_net (lookup_call demo_env plain_url ''abc123''))
   \<and> store_fault (garbled_net (lookup_call demo_env plain_url ''abc123''))
   \<and> store_fault (rows_net [] (lookup_call demo_env plain_url ''abc123''))
   \<and> fst (getLinkFromSupabase (status_net 503) ''abc123'' ''goodlink.ai''
            ''https://db.example'' ''secret'') = Inr None
   \<and> read_link (rejecting_net (supabase_call ''abc123'' ''goodlink.ai''
            ''https://db.example'' ''secret'')) = Inl TypeError
   \<and> fst (getLinkFromSupabase rejecting_net ''abc123'' ''goodlink.ai''
            ''https://db.example'' ''secret'') = Inr None
   \<and> resp_status (fst (fetch demo_platform (status_net 503) demo_request demo_env)) = 404
   \<and> resp_status (fst (fetch demo_platform rejecting_net demo_request demo_env)) = 404
   \<and> resp_status (fst (fetch demo_platform garbled_net demo_request demo_env)) = 404
   \<and> resp_status (fst (fetch demo_platform (rows_net []) demo_request demo_env)) = 404"
proof -
  have faults:
    "store_fault (status_net 503 c)" "store_fault (rejecting_net c)"
    "store_fault (garbled_net c)" "store_fault (rows_net [] c)" for c
    by (simp_all add: status_net_def rejecting_net_def garbled_net_def rows_net_def
        response_ok_def)
  show ?thesis
    using datastore_fault_not_found [of "status_net 503" "''abc123''" "''goodlink.ai''"
        "''https://db.example''" "''secret''" demo_env demo_platform demo_request plain_url
        "''abc123''"]
      datastore_fault_not_found [of rejecting_net "''abc123''" "''goodlink.ai''"
        "''https://db.example''" "''secret''" demo_env demo_platform demo_request plain_url
        "''abc123''"]
      datastore_fault_not_found [of garbled_net "''abc123''" "''goodlink.ai''"
        "''https://db.example''" "''secret''" demo_env demo_platform demo_request plain_url
        "''abc123''"]
      datastore_fault_not_found [of "rows_net []" "''abc123''" "''goodlink.ai''"
        "''https://db.example''" "''secret''" demo_env demo_platform demo_request plain_url
        "''abc123''"]
    by (simp add: faults demo_config demo_request_parse demo_slug)
       (simp add: read_link_def rejecting_net_def)
qed

subsection \<open>The status column\<close>

text \<open>
  C6. For the first row of a successful answer: when its \<open>status\<close> is \<open>false\<close> the
  response is the 404 not-found response, whatever its \<open>target_url\<close> is; when it has no
  \<open>status\<close> field and its \<open>target_url\<close> is a non-empty string that parses, the handler
  goes on to \<open>Response.redirect\<close> with the composed URL, and the response is the 301
  redirect to it (the platform parsing the URL that it has serialized itself).
\<close>

theorem status_column:
  assumes "truthy (SUPABASE_URL env)" and "truthy (SUPABASE_SERVICE_ROLE_KEY env)"
    and "url_parse P (req_url request) = Some url"
    and "extractSlug (pathname url) = Some slug"
    and "net (lookup_call env url slug) = FetchResponse st (BodyRows (row # rest))"
    and "response_ok st"
  shows "(status row = JBool False \<longrightarrow>
            fetch P net request env =
              (\<lparr>resp_status = 404, resp_headers = [(''Content-Type'', ''text/plain'')],
                resp_body = ''Link not found''\<rparr>,
               [lookup_call env url slug]))
       \<and> (status row = JUndefined \<and> target_url row = JStr t \<and> t \<noteq> []
            \<and> url_parse P t = Some target \<longrightarrow>
            fetch P net request env =
              (case Response_redirect P
                      (JStr (url_href P (compose_target target row url))) 301 of
                 Inl error \<Rightarrow> internal_error | Inr r \<Rightarrow> r,
               [lookup_call env url slug]))
       \<and> (status row = JUndefined \<and> target_url row = JStr t \<and> t \<noteq> []
            \<and> url_parse P t = Some target
            \<and> url_parse P (url_href P (compose_target target row url)) = Some final \<longrightarrow>
            fetch P net request env =
              (\<lparr>resp_status = 301, resp_headers = [(''Location'', url_href P final)],
                resp_body = []\<rparr>,
               [lookup_call env url slug]))"
proof -
  note row = fetch_first_row [where net = net, OF assms]
  have inactive: "status row = JBool False \<Longrightarrow> ?thesis"
    using row by (simp add: not_found_def)
  have active: "status row \<noteq> JBool False \<Longrightarrow> ?thesis"
    using row by (auto simp: buildTargetUrl_parsed redirect_parsed)
  from inactive active show ?thesis by blast
qed

theorem status_column_witness:
  "fetch demo_platform
      (rows_net [empty_link\<lparr>target_url := JStr ''https://x.com'', status := JBool False\<rparr>])
      demo_request demo_env =
     (\<lparr>resp_status = 404, resp_headers = [(''Content-Type'', ''text/plain'')],
       resp_body = ''Link not found''\<rparr>,
      [lookup_call demo_env plain_url ''abc123''])
   \<and> fetch demo_platform (rows_net [empty_link\<lparr>target_url := JStr ''https://x.com''\<rparr>])
      demo_request demo_env =
     (\<lparr>resp_status = 301, resp_headers = [(''Location'', ''https://x.com/'')],
       resp_body = []\<rparr>,
      [lookup_call demo_env plain_url ''abc123''])"
proof -
  let ?x = "\<lparr>protocol = ''https:'', hostname = ''x.com'', port = [], pathname = ''/'',
          searchParams = [], hash = []\<rparr>"
  have ok: "response_ok 200" by (simp add: response_ok_def)
  have fields: "status (empty_link\<lparr>target_url := JStr ''https://x.com''\<rparr>) = JUndefined"
    "target_url (empty_link\<lparr>target_url := JStr ''https://x.com''\<rparr>) = JStr ''https://x.com''"
    by (simp_all add: empty_link_def)
  have compose: "compose_target ?x (empty_link\<lparr>target_url := JStr ''https://x.com''\<rparr>) plain_url = ?x"
    by (simp add: compose_target_def apply_utm_def set_if_configured_def empty_link_def)
  have off: "fetch demo_platform
      (rows_net [empty_link\<lparr>target_url := JStr ''https://x.com'', status := JBool False\<rparr>])
      demo_request demo_env =
     (\<lparr>resp_status = 404, resp_headers = [(''Content-Type'', ''text/plain'')],
       resp_body = ''Link not found''\<rparr>,
      [lookup_call demo_env plain_url ''abc123''])"
    using status_column [where net = "rows_net [empty_link\<lparr>target_url := JStr ''https://x.com'', status := JBool False\<rparr>]"
          and row = "empty_link\<lparr>target_url := JStr ''https://x.com'', status := JBool False\<rparr>"
          and rest = "[]",
        OF demo_config demo_request_parse demo_slug _ ok, THEN conjunct1]
    by (simp add: rows_net_def)
  have on: "fetch demo_platform (rows_net [empty_link\<lparr>target_url := JStr ''https://x.com''\<rparr>])
      demo_request demo_env =
     (\<lparr>resp_status = 301, resp_headers = [(''Location'', ''https://x.com/'')],
       resp_body = []\<rparr>,
      [lookup_call demo_env plain_url ''abc123''])"
    using status_column [where net = "rows_net [empty_link\<lparr>target_url := JStr ''https://x.com''\<rparr>]"
          and row = "empty_link\<lparr>target_url := JStr ''https://x.com''\<rparr>"
          and rest = "[]" and t = "''https://x.com''" and target = ?x and final = ?x,
        OF demo_config demo_request_parse demo_slug _ ok, THEN conjunct2, THEN conjunct2]
    by (simp add: rows_net_def fields demo_parse_x demo_parse_x_slash demo_href_x compose)
  from off on show ?thesis by simp
qed

subsection \<open>A target URL that is missing or does not parse\<close>

lemma demo_first_row:
  "fetch demo_platform (rows_net (row # rest)) demo_request demo_env =
     (if status row = JBool False \<or> \<not> truthy (target_url row) then not_found
      else (case buildTargetUrl demo_platform (target_url row) row plain_url of
              Inl error \<Rightarrow> internal_error
            | Inr finalUrl \<Rightarrow>
                (case Response_redirect demo_platform finalUrl 301 of
                   Inl error \<Rightarrow> internal_error | Inr r \<Rightarrow> r)),
      [lookup_call demo_env plain_url ''abc123''])"
  by (rule fetch_first_row [where net = "rows_net (row # rest)" and st = 200 and rest = rest,
        OF demo_config demo_request_parse demo_slug])
     (simp_all add: rows_net_def response_ok_def)

text \<open>
  C1 fails on the code: a first row without \<open>target_url\<close> is answered with 404, not
  with 500.
\<close>

theorem absent_target_counterexample:
  "target_url empty_link = JUndefined
   \<and> resp_status (fst (fetch demo_platform (rows_net [empty_link]) demo_request demo_env)) = 404"
  by (simp add: demo_first_row) (simp add: empty_link_def not_found_def)

text \<open>
  C1, amended. For the first row of a successful answer that is not inactive: when its
  \<open>target_url\<close> is absent, null or the empty string, the request yields the 404
  not-found response; when its \<open>target_url\<close> is a non-empty value that fails to parse
  as an absolute URL, the request yields a 500 response, never a 404.
\<close>

theorem target_url_missing_or_unparsed:
  assumes "truthy (SUPABASE_URL env)" and "truthy (SUPABASE_SERVICE_ROLE_KEY env)"
    and "url_parse P (req_url request) = Some url"
    and "extractSlug (pathname url) = Some slug"
    and "net (lookup_call env url slug) = FetchResponse st (BodyRows (row # rest))"
    and "response_ok st"
    and "status row \<noteq> JBool False"
  shows "(\<not> truthy (target_url row) \<longrightarrow>
            fetch P net request env =
              (\<lparr>resp_status = 404, resp_headers = [(''Content-Type'', ''text/plain'')],
                resp_body = ''Link not found''\<rparr>,
               [lookup_call env url slug]))
       \<and> (truthy (target_url row) \<and> url_parse P (ToString (target_url row)) = None \<longrightarrow>
            resp_status (fst (fetch P net request env)) = 500)"
proof -
  note row = fetch_first_row [where net = net, OF assms(1-6)]
  have missing: "\<not> truthy (target_url row) \<Longrightarrow> ?thesis"
    using row by (simp add: not_found_def)
  have unparsed: "truthy (target_url row) \<Longrightarrow> ?thesis"
    using row assms(7)
    by (auto simp: buildTargetUrl_unparsed redirect_unparsed internal_error_def)
  from missing unparsed show ?thesis by blast
qed

theorem target_url_missing_or_unparsed_witness:
  "\<not> truthy (target_url (empty_link\<lparr>target_url := JNull\<rparr>))
   \<and> fetch demo_platform (rows_net [empty_link\<lparr>target_url := JNull\<rparr>]) demo_request demo_env =
       (\<lparr>resp_status = 404, resp_headers = [(''Content-Type'', ''text/plain'')],
         resp_body = ''Link not found''\<rparr>,
        [lookup_call demo_env plain_url ''abc123''])
   \<and> truthy (target_url (empty_link\<lparr>target_url := JStr ''not a url''\<rparr>))
   \<and> url_parse demo_platform ''not a url'' = None
   \<and> resp_status (fst (fetch demo_platform
        (rows_net [empty_link\<lparr>target_url := JStr ''not a url''\<rparr>]) demo_request demo_env)) = 500"
proof -
  have ok: "response_ok 200" by (simp add: response_ok_def)
  have null_row: "status (empty_link\<lparr>target_url := JNull\<rparr>) \<noteq> JBool False"
    "target_url (empty_link\<lparr>target_url := JNull\<rparr>) = JNull"
    by (simp_all add: empty_link_def)
  have bad_row: "status (empty_link\<lparr>target_url := JStr ''not a url''\<rparr>) \<noteq> JBool False"
    "target_url (empty_link\<lparr>target_url := JStr ''not a url''\<rparr>) = JStr ''not a url''"
    by (simp_all add: empty_link_def)
  have bad: "url_parse demo_platform ''not a url'' = None"
    by (simp add: demo_platform_def demo_parse_not_a_url)
  have first: "fetch demo_platform (rows_net [empty_link\<lparr>target_url := JNull\<rparr>]) demo_request demo_env =
       (\<lparr>resp_status = 404, resp_headers = [(''Content-Type'', ''text/plain'')],
         resp_body = ''Link not found''\<rparr>,
        [lookup_call demo_env plain_url ''abc123''])"
    using target_url_missing_or_unparsed [where net = "rows_net [empty_link\<lparr>target_url := JNull\<rparr>]"
          and row = "empty_link\<lparr>target_url := JNull\<rparr>" and rest = "[]",
        OF demo_config demo_request_parse demo_slug _ ok null_row(1), THEN conjunct1]
    by (simp add: rows_net_def null_row)
  have second: "resp_status (fst (fetch demo_platform
        (rows_net [empty_link\<lparr>target_url := JStr ''not a url''\<rparr>]) demo_request demo_env)) = 500"
    using target_url_missing_or_unparsed [where net = "rows_net [empty_link\<lparr>target_url := JStr ''not a url''\<rparr>]"
          and row = "empty_link\<lparr>target_url := JStr ''not a url''\<rparr>" and rest = "[]",
        OF demo_config demo_request_parse demo_slug _ ok bad_row(1), THEN conjunct2]
    by (simp add: rows_net_def bad_row bad)
  from first second bad show ?thesis by (simp add: null_row bad_row)
qed

text \<open>
  C2 fails on the code: an active record whose \<open>target_url\<close> is the empty string, which
  is no absolute URL, is answered with 404.
\<close>

theorem empty_target_counterexample:
  "url_parse demo_platform [] = None
   \<and> status (empty_link\<lparr>target_url := JStr [], status := JBool True\<rparr>) = JBool True
   \<and> resp_status (fst (fetch demo_platform
        (rows_net [empty_link\<lparr>target_url := JStr [], status := JBool True\<rparr>])
        demo_request demo_env)) = 404"
  by (simp add: demo_first_row demo_parse_empty) (simp add: empty_link_def not_found_def)

text \<open>
  C2, amended. For every request that resolves an active record whose \<open>target_url\<close> is a
  non-empty string that is not a valid absolute URL, the terminal response has status 500
  with a plain-text error body: it is no redirect and no 404. A record whose
  \<open>target_url\<close> is the empty string, null or absent is answered with the 404 not-found
  response.
\<close>

theorem malformed_target_internal_error:
  assumes "truthy (SUPABASE_URL env)" and "truthy (SUPABASE_SERVICE_ROLE_KEY env)"
    and "url_parse P (req_url request) = Some url"
    and "extractSlug (pathname url) = Some slug"
    and "net (lookup_call env url slug) = FetchResponse st (BodyRows (row # rest))"
    and "response_ok st"
    and "status row \<noteq> JBool False"
  shows "(target_url row = JStr t \<and> t \<noteq> [] \<and> url_parse P t = None \<longrightarrow>
            resp_status (fst (fetch P net request env)) = 500
            \<and> resp_headers (fst (fetch P net request env)) = [(''Content-Type'', ''text/plain'')]
            \<and> resp_body (fst (fetch P net request env)) \<noteq> []
            \<and> snd (fetch P net request env) = [lookup_call env url slug])
       \<and> (target_url row = JStr [] \<or> target_url row = JNull \<or> target_url row = JUndefined
            \<longrightarrow>
            fetch P net request env =
              (\<lparr>resp_status = 404, resp_headers = [(''Content-Type'', ''text/plain'')],
                resp_body = ''Link not found''\<rparr>,
               [lookup_call env url slug]))"
proof -
  note row = fetch_first_row [where net = net, OF assms(1-6)]
  have malformed: "target_url row = JStr t \<Longrightarrow> t \<noteq> [] \<Longrightarrow> url_parse P t = None \<Longrightarrow>
      fetch P net request env = (internal_error, [lookup_call env url slug])"
    using row assms(7) by (simp add: buildTargetUrl_unparsed redirect_unparsed)
  have missing: "target_url row = JStr [] \<or> target_url row = JNull \<or> target_url row = JUndefined
      \<Longrightarrow> fetch P net request env = (not_found, [lookup_call env url slug])"
    using row by auto
  have shape: "resp_status internal_error = 500"
    "resp_headers internal_error = [(''Content-Type'', ''text/plain'')]"
    "resp_body internal_error \<noteq> []"
    by (simp_all add: internal_error_def)
  from malformed missing shape show ?thesis
    unfolding not_found_def by auto
qed

theorem malformed_target_internal_error_witness:
  "url_parse demo_platform ''/relative/path'' = None
   \<and> resp_status (fst (fetch demo_platform
        (rows_net [empty_link\<lparr>target_url := JStr ''/relative/path'', status := JBool True\<rparr>])
        demo_request demo_env)) = 500
   \<and> resp_headers (fst (fetch demo_platform
        (rows_net [empty_link\<lparr>target_url := JStr ''/relative/path'', status := JBool True\<rparr>])
        demo_request demo_env)) = [(''Content-Type'', ''text/plain'')]
   \<and> resp_body (fst (fetch demo_platform
        (rows_net [empty_link\<lparr>target_url := JStr ''/relative/path'', status := JBool True\<rparr>])
        demo_request demo_env)) \<noteq> []
   \<and> snd (fetch demo_platform
        (rows_net [empty_link\<lparr>target_url := JStr ''/relative/path'', status := JBool True\<rparr>])
        demo_request demo_env) = [lookup_call demo_env plain_url ''abc123'']"
proof -
  have ok: "response_ok 200" by (simp add: response_ok_def)
  have fields:
    "status (empty_link\<lparr>target_url := JStr ''/relative/path'', status := JBool True\<rparr>) \<noteq> JBool False"
    "target_url (empty_link\<lparr>target_url := JStr ''/relative/path'', status := JBool True\<rparr>)
       = JStr ''/relative/path''"
    by (simp_all add: empty_link_def)
  have bad: "url_parse demo_platform ''/relative/path'' = None"
    by (simp add: demo_platform_def demo_parse_def)
  show ?thesis
    using malformed_target_internal_error
        [where net = "rows_net [empty_link\<lparr>target_url := JStr ''/relative/path'', status := JBool True\<rparr>]"
          and row = "empty_link\<lparr>target_url := JStr ''/relative/path'', status := JBool True\<rparr>"
          and rest = "[]" and t = "''/relative/path''",
        OF demo_config demo_request_parse demo_slug _ ok fields(1), THEN conjunct1]
    by (simp add: rows_net_def fields bad)
qed

subsection \<open>UTM values and the pass-through of the query\<close>

lemma getAll_set_same: "getAll name (searchParams_set name v ps) = [v]"
  by (induction ps) (auto simp: getAll_def filter_empty_conv)

lemma getAll_set_other:
  "k \<noteq> name \<Longrightarrow> getAll k (searchParams_set name v ps) = getAll k ps"
proof (induction ps)
  case Nil
  then show ?case by (simp add: getAll_def)
next
  case (Cons p ps)
  have "filter (\<lambda>q. fst q = k) (filter (\<lambda>q. fst q \<noteq> name) ps) = filter (\<lambda>q. fst q = k) ps"
    using Cons.prems by (auto intro: filter_cong)
  with Cons show ?case by (auto simp: getAll_def)
qed

lemma getAll_append: "getAll k (ps @ qs) = getAll k ps @ getAll k qs"
  by (simp add: getAll_def)

lemma getAll_set_param:
  "getAll k (searchParams (set_param name v target))
     = (if k = name then [v] else getAll k (searchParams target))"
  by (simp add: set_param_def getAll_set_same getAll_set_other)

lemma getAll_set_if_configured:
  "getAll k (searchParams (set_if_configured name v target))
     = (if k = name \<and> truthy v then [ToString v] else getAll k (searchParams target))"
  by (simp add: set_if_configured_def getAll_set_param)

lemma getAll_pass_step:
  "getAll k (searchParams (pass_step target e))
     = (if fst e \<notin> set utm_keys \<and> fst e = k then [snd e] else getAll k (searchParams target))"
  by (auto simp: pass_step_def getAll_set_param)

lemma pass_through_snoc: "pass_through (rp @ [e]) target = pass_step (pass_through rp target) e"
  by (simp add: pass_through_def)

lemma pass_through_utm:
  "k \<in> set utm_keys \<Longrightarrow>
   getAll k (searchParams (pass_through rp target)) = getAll k (searchParams target)"
proof (induction rp rule: rev_induct)
  case Nil
  then show ?case by (simp add: pass_through_def)
next
  case (snoc e rp)
  from snoc.prems have "\<not> (fst e \<notin> set utm_keys \<and> fst e = k)" by blast
  with snoc show ?case by (auto simp: pass_through_snoc getAll_pass_step)
qed

lemma pass_through_inbound:
  "k \<notin> set utm_keys \<Longrightarrow> getAll k rp \<noteq> [] \<Longrightarrow>
   getAll k (searchParams (pass_through rp target)) = [last (getAll k rp)]"
proof (induction rp rule: rev_induct)
  case Nil
  then show ?case by (simp add: getAll_def)
next
  case (snoc e rp)
  show ?case
  proof (cases "fst e = k")
    case True
    with snoc.prems(1) show ?thesis
      by (simp add: pass_through_snoc getAll_pass_step getAll_append) (simp add: getAll_def)
  next
    case False
    then have same: "getAll k (rp @ [e]) = getAll k rp"
      by (simp add: getAll_def)
    with snoc have "getAll k (searchParams (pass_through rp target)) = [last (getAll k rp)]"
      by simp
    with False same show ?thesis
      by (simp add: pass_through_snoc getAll_pass_step)
  qed
qed

lemma apply_utm_configured:
  "getAll ''utm_source'' (searchParams (apply_utm l target))
     = (if truthy (utm_source l) then [ToString (utm_source l)]
        else getAll ''utm_source'' (searchParams target))"
  "getAll ''utm_medium'' (searchParams (apply_utm l target))
     = (if truthy (utm_medium l) then [ToString (utm_medium l)]
        else getAll ''utm_medium'' (searchParams target))"
  "getAll ''utm_campaign'' (searchParams (apply_utm l target))
     = (if truthy (utm_campaign l) then [ToString (utm_campaign l)]
        else getAll ''utm_campaign'' (searchParams target))"
  "getAll ''utm_content'' (searchParams (apply_utm l target))
     = (if truthy (utm_content l) then [ToString (utm_content l)]
        else getAll ''utm_content'' (searchParams target))"
  by (simp_all add: apply_utm_def getAll_set_if_configured)

lemma apply_utm_other:
  "k \<notin> set utm_keys \<Longrightarrow>
   getAll k (searchParams (apply_utm l target)) = getAll k (searchParams target)"
  by (auto simp: apply_utm_def getAll_set_if_configured utm_keys_def)

lemma compose_target_utm:
  "k \<in> set utm_keys \<Longrightarrow>
   getAll k (searchParams (compose_target target l requestUrl))
     = getAll k (searchParams (apply_utm l target))"
  by (simp add: compose_target_def Let_def pass_through_utm)

text \<open>
  C5. The composed URL is the serialization of the parsed target after the UTM step and the
  pass-through step. With \<open>parameter_pass_through\<close> true, every inbound parameter whose
  name is not one of the four UTM names is set on the target (its last inbound value is the
  one value of that name); for each of the four UTM names the values on the composed URL
  are those after the UTM step, whatever the inbound query holds, and a configured UTM
  value is the one value of its name. With \<open>parameter_pass_through\<close> false or absent the
  composed URL is the target after the UTM step alone, so a name that is neither in the
  target's own query nor a UTM name does not appear.
\<close>

theorem pass_through_contract:
  assumes "url_parse P t = Some target"
  shows "buildTargetUrl P (JStr t) l requestUrl
           = Inr (JStr (url_href P (compose_target target l requestUrl)))
       \<and> (truthy (parameter_pass_through l) \<and> k \<notin> set utm_keys
            \<and> getAll k (searchParams requestUrl) \<noteq> [] \<longrightarrow>
          getAll k (searchParams (compose_target target l requestUrl))
            = [last (getAll k (searchParams requestUrl))])
       \<and> (k \<in> set utm_keys \<longrightarrow>
          getAll k (searchParams (compose_target target l requestUrl))
            = getAll k (searchParams (apply_utm l target)))
       \<and> (truthy (utm_source l) \<longrightarrow>
          getAll ''utm_source'' (searchParams (compose_target target l requestUrl))
            = [ToString (utm_source l)])
       \<and> (truthy (utm_medium l) \<longrightarrow>
          getAll ''utm_medium'' (searchParams (compose_target target l requestUrl))
            = [ToString (utm_medium l)])
       \<and> (truthy (utm_campaign l) \<longrightarrow>
          getAll ''utm_campaign'' (searchParams (compose_target target l requestUrl))
            = [ToString (utm_campaign l)])
       \<and> (truthy (utm_content l) \<longrightarrow>
          getAll ''utm_content'' (searchParams (compose_target target l requestUrl))
            = [ToString (utm_content l)])
       \<and> (\<not> truthy (parameter_pass_through l) \<longrightarrow>
          compose_target target l requestUrl = apply_utm l target)
       \<and> (\<not> truthy (parameter_pass_through l) \<and> k \<notin> set utm_keys
            \<and> getAll k (searchParams target) = [] \<longrightarrow>
          getAll k (searchParams (compose_target target l requestUrl)) = [])"
proof -
  have built: "buildTargetUrl P (JStr t) l requestUrl
           = Inr (JStr (url_href P (compose_target target l requestUrl)))"
    using assms by (simp add: buildTargetUrl_parsed)
  have inbound: "truthy (parameter_pass_through l) \<Longrightarrow> k \<notin> set utm_keys \<Longrightarrow>
      getAll k (searchParams requestUrl) \<noteq> [] \<Longrightarrow>
      getAll k (searchParams (compose_target target l requestUrl))
        = [last (getAll k (searchParams requestUrl))]"
    by (simp add: compose_target_def Let_def pass_through_inbound)
  have utm: "k \<in> set utm_keys \<Longrightarrow>
      getAll k (searchParams (compose_target target l requestUrl))
        = getAll k (searchParams (apply_utm l target))"
    by (rule compose_target_utm)
  have names: "''utm_source'' \<in> set utm_keys" "''utm_medium'' \<in> set utm_keys"
      "''utm_campaign'' \<in> set utm_keys" "''utm_content'' \<in> set utm_keys"
    by (simp_all add: utm_keys_def)
  have configured:
    "truthy (utm_source l) \<Longrightarrow>
       getAll ''utm_source'' (searchParams (compose_target target l requestUrl))
         = [ToString (utm_source l)]"
    "truthy (utm_medium l) \<Longrightarrow>
       getAll ''utm_medium'' (searchParams (compose_target target l requestUrl))
         = [ToString (utm_medium l)]"
    "truthy (utm_campaign l) \<Longrightarrow>
       getAll ''utm_campaign'' (searchParams (compose_target target l requestUrl))
         = [ToString (utm_campaign l)]"
    "truthy (utm_content l) \<Longrightarrow>
       getAll ''utm_content'' (searchParams (compose_target target l requestUrl))
         = [ToString (utm_content l)]"
    by (simp_all add: compose_target_utm [OF names(1)] compose_target_utm [OF names(2)]
        compose_target_utm [OF names(3)] compose_target_utm [OF names(4)] apply_utm_configured)
  have off: "\<not> truthy (parameter_pass_through l) \<Longrightarrow>
      compose_target target l requestUrl = apply_utm l target"
    by (simp add: compose_target_def)
  have absent: "\<not> truthy (parameter_pass_through l) \<Longrightarrow> k \<notin> set utm_keys \<Longrightarrow>
      getAll k (searchParams target) = [] \<Longrightarrow>
      getAll k (searchParams (compose_target target l requestUrl)) = []"
    by (simp add: off apply_utm_other)
  from built inbound utm configured off absent show ?thesis by blast
qed

lemma demo_parse_dest: "url_parse demo_platform ''https://dest.example/page'' = Some dest_url"
  by (simp add: demo_platform_def demo_parse_def demo_query_def dest_url_def)

lemmas compose_eval = compose_target_def apply_utm_def set_if_configured_def set_param_def
  pass_through_def pass_step_def utm_keys_def

lemma demo_compose_pass:
  "compose_target dest_url nl_link_pass demo_url
     = dest_url\<lparr>searchParams := [(''utm_source'', ''nl''), (''ref'', ''x'')]\<rparr>"
  by (simp add: compose_eval nl_link_pass_def nl_link_def empty_link_def dest_url_def
      demo_url_def)

lemma demo_compose_off:
  "compose_target dest_url nl_link demo_url
     = dest_url\<lparr>searchParams := [(''utm_source'', ''nl'')]\<rparr>"
  by (simp add: compose_eval nl_link_def empty_link_def dest_url_def demo_url_def)

theorem pass_through_contract_witness:
  "url_parse demo_platform ''https://dest.example/page'' = Some dest_url
   \<and> truthy (parameter_pass_through nl_link_pass) \<and> ''ref'' \<notin> set utm_keys
   \<and> getAll ''ref'' (searchParams demo_url) = [''x'']
   \<and> getAll ''utm_source'' (searchParams demo_url) = [''hack'']
   \<and> getAll ''ref'' (searchParams (compose_target dest_url nl_link_pass demo_url)) = [''x'']
   \<and> getAll ''utm_source'' (searchParams (compose_target dest_url nl_link_pass demo_url)) = [''nl'']
   \<and> buildTargetUrl demo_platform (JStr ''https://dest.example/page'') nl_link_pass demo_url
       = Inr (JStr ''https://dest.example/page?utm_source=nl&ref=x'')
   \<and> \<not> truthy (parameter_pass_through nl_link)
   \<and> getAll ''ref'' (searchParams (compose_target dest_url nl_link demo_url)) = []
   \<and> buildTargetUrl demo_platform (JStr ''https://dest.example/page'') nl_link demo_url
       = Inr (JStr ''https://dest.example/page?utm_source=nl'')"
proof -
  have pass: "truthy (parameter_pass_through nl_link_pass)" "truthy (utm_source nl_link_pass)"
      "ToString (utm_source nl_link_pass) = ''nl''"
    by (simp_all add: nl_link_pass_def nl_link_def empty_link_def)
  have off: "\<not> truthy (parameter_pass_through nl_link)"
    by (simp add: nl_link_def empty_link_def)
  have ref: "''ref'' \<notin> set utm_keys" by (simp add: utm_keys_def)
  have inbound: "getAll ''ref'' (searchParams demo_url) = [''x'']"
      "getAll ''utm_source'' (searchParams demo_url) = [''hack'']"
    by (simp_all add: getAll_def demo_url_def)
  have own: "getAll ''ref'' (searchParams dest_url) = []"
    by (simp add: getAll_def dest_url_def)
  have href: "url_href demo_platform (dest_url\<lparr>searchParams := [(''utm_source'', ''nl''), (''ref'', ''x'')]\<rparr>)
        = ''https://dest.example/page?utm_source=nl&ref=x''"
      "url_href demo_platform (dest_url\<lparr>searchParams := [(''utm_source'', ''nl'')]\<rparr>)
        = ''https://dest.example/page?utm_source=nl''"
    by (simp_all add: demo_platform_def demo_href_def dest_url_def)
  have pass_case:
    "getAll ''ref'' (searchParams (compose_target dest_url nl_link_pass demo_url)) = [''x'']
     \<and> getAll ''utm_source'' (searchParams (compose_target dest_url nl_link_pass demo_url))
         = [''nl'']
     \<and> buildTargetUrl demo_platform (JStr ''https://dest.example/page'') nl_link_pass demo_url
         = Inr (JStr (url_href demo_platform (compose_target dest_url nl_link_pass demo_url)))"
    using pass_through_contract [OF demo_parse_dest, of nl_link_pass demo_url "''ref''"]
      pass ref inbound
    by simp
  have off_case:
    "getAll ''ref'' (searchParams (compose_target dest_url nl_link demo_url)) = []
     \<and> buildTargetUrl demo_platform (JStr ''https://dest.example/page'') nl_link demo_url
         = Inr (JStr (url_href demo_platform (compose_target dest_url nl_link demo_url)))"
    using pass_through_contract [OF demo_parse_dest, of nl_link demo_url "''ref''"]
      off ref own
    by blast
  from pass_case off_case show ?thesis
    by (simp add: demo_compose_pass demo_compose_off href demo_parse_dest pass off ref inbound)
qed

end
